theory Spec2Isabelle
  imports Main "HOL-Library.Sublist"
begin

section \<open>Strings as the scripts use them\<close>

text \<open>
  \<^verbatim>\<open>String.prototype.includes\<close>: the argument occurs somewhere in the receiver.
  The scan tries every start position from the left.
\<close>

fun str_includes :: "string \<Rightarrow> string \<Rightarrow> bool" where
  "str_includes [] sub = (sub = [])"
| "str_includes (c # cs) sub = (prefix sub (c # cs) \<or> str_includes cs sub)"

text \<open>
  \<^verbatim>\<open>path.replace(/\/?$/, r)\<close>: the pattern has neither the global nor the multiline flag,
  so the first match from the left is replaced and \<^verbatim>\<open>$\<close> is the end of the input. At a start
  position the pattern matches when a slash is the last character, or when the position is the
  end of the input itself (the empty match). The replacements used are \<^verbatim>\<open>''\<close> and \<^verbatim>\<open>'/'\<close>,
  which hold no \<^verbatim>\<open>$\<close> pattern.
\<close>

fun replace_slash_at_end :: "string \<Rightarrow> string \<Rightarrow> string" where
  "replace_slash_at_end [] r = r"
| "replace_slash_at_end (c # cs) r =
     (if c = CHR ''/'' \<and> cs = [] then r else c # replace_slash_at_end cs r)"

text \<open>\<^verbatim>\<open>Array.prototype.join\<close> on an array of strings.\<close>

fun join :: "string \<Rightarrow> string list \<Rightarrow> string" where
  "join sep [] = []"
| "join sep [x] = x"
| "join sep (x # y # ys) = x @ sep @ join sep (y # ys)"


section \<open>BaseHead: page metadata\<close>

text \<open>
  \<^verbatim>\<open>formatCanonicalURL(url)\<close>, on the string \<^verbatim>\<open>url.toString()\<close>. The source's line
  \<^verbatim>\<open>if (hasQueryParams) path.replace(/\/?$/, '')\<close> computes a string and drops it
  (\<^verbatim>\<open>path\<close> is a constant and strings are immutable): it is the binding \<open>dropped\<close> below.
\<close>

definition formatCanonicalURL :: "string \<Rightarrow> string" where
  "formatCanonicalURL url =
     (let path = url;
          hasQueryParams = str_includes path ''?'';
          dropped = (if hasQueryParams then replace_slash_at_end path '''' else path)
      in replace_slash_at_end path (if hasQueryParams then '''' else ''/''))"

text \<open>
  \<^verbatim>\<open>[Astro.props.title, siteConfig.title].filter(Boolean).join(' | ')\<close>. The page title is
  optional (\<^verbatim>\<open>title?: string\<close>); \<^verbatim>\<open>Boolean\<close> keeps a string that is present and not empty.
\<close>

definition Boolean_str :: "string option \<Rightarrow> bool" where
  "Boolean_str v = (case v of None \<Rightarrow> False | Some s \<Rightarrow> s \<noteq> [])"

definition toString_opt :: "string option \<Rightarrow> string" where
  "toString_opt v = (case v of None \<Rightarrow> [] | Some s \<Rightarrow> s)"

definition title :: "string option \<Rightarrow> string \<Rightarrow> string" where
  "title page_title siteConfig_title =
     join '' | '' (map toString_opt (filter Boolean_str [page_title, Some siteConfig_title]))"


section \<open>Site configuration\<close>

text \<open>
  The filter over the social links takes each entry as \<^verbatim>\<open>Record<string, any>\<close>, so the
  fields \<^verbatim>\<open>icon\<close> and \<^verbatim>\<open>header\<close> are values of any kind. Numbers are kept to the integers.
\<close>

datatype js_value = Undefined | JNull | JBool bool | JNumber int | JString string

fun truthy :: "js_value \<Rightarrow> bool" where
  "truthy Undefined = False"
| "truthy JNull = False"
| "truthy (JBool b) = b"
| "truthy (JNumber n) = (n \<noteq> 0)"
| "truthy (JString s) = (s \<noteq> [])"

fun typeof :: "js_value \<Rightarrow> string" where
  "typeof Undefined = ''undefined''"
| "typeof JNull = ''object''"
| "typeof (JBool b) = ''boolean''"
| "typeof (JNumber n) = ''number''"
| "typeof (JString s) = ''string''"

fun string_value :: "js_value \<Rightarrow> string" where
  "string_value (JString s) = s"
| "string_value v = []"

record social_link =
  link_text :: string
  href :: string
  icon :: js_value
  header :: js_value

record nav_link =
  nav_text :: string
  nav_href :: string

record image =
  src :: string
  alt :: "string option"

record site_config =
  config_title :: string
  config_image :: "image option"
  socialLinks :: "social_link list"
  header_navLinks :: "nav_link list"

text \<open>
  The entries of \<^verbatim>\<open>src/site-config.ts\<close> that BaseHead and the header read. The file has no
  \<^verbatim>\<open>image\<close> entry, so \<^verbatim>\<open>siteConfig.image\<close> is undefined.
\<close>

definition siteConfig :: site_config where
  "siteConfig =
     \<lparr>config_title = ''Coderik'',
      config_image = None,
      socialLinks =
        [\<lparr>link_text = ''GitHub'', href = ''https://github.com/erikvdven'',
          icon = JString ''i-simple-icons-github'', header = JString ''i-ri-github-line''\<rparr>,
         \<lparr>link_text = ''Linkedin'', href = '''',
          icon = JString ''i-simple-icons-linkedin'', header = Undefined\<rparr>],
      header_navLinks =
        [\<lparr>nav_text = ''Blog'', nav_href = ''/blog''\<rparr>,
         \<lparr>nav_text = ''About'', nav_href = ''/''\<rparr>]\<rparr>"


section \<open>BaseHead: the resolved metadata\<close>

text \<open>
  \<^verbatim>\<open>new URL(url, base)\<close> returns a URL or throws a TypeError. A call ends in one of the
  outcomes below; the third stands for a call outside the inputs described next.
\<close>

datatype 'a outcome = Returns 'a | TypeError | Not_modelled

text \<open>\<^verbatim>\<open>Astro.site\<close>, from \<^verbatim>\<open>site: 'https://coderik.nl/'\<close> in \<^verbatim>\<open>astro.config.ts\<close>, as a string.\<close>

definition Astro_site :: string where
  "Astro_site = ''https://coderik.nl/''"

text \<open>
  The constructor of the host, \<^verbatim>\<open>new URL(url, base).toString()\<close>, on three kinds of input
  and a base with the scheme https, after the parser of the URL Standard.
  \<^item> The input names an authority (it begins with two slashes, after \<^verbatim>\<open>http:\<close> or
    \<^verbatim>\<open>https:\<close> or with the scheme of the base) and the host is empty: further slashes are
    skipped, and the input ends or its query or fragment begins. A URL with the scheme http or
    https has a host that is not empty, so the parser fails and the constructor throws.
  \<^item> The input is a URL of the site with a plain path (letters, digits, \<^verbatim>\<open>-\<close>, \<^verbatim>\<open>_\<close>,
    \<^verbatim>\<open>.\<close> and \<^verbatim>\<open>/\<close>, no segment beginning with a dot): the result is the input.
  \<^item> The input is such a path alone, beginning with one slash, and the base is the site: the
    result is the path on the site.
\<close>

definition empty_host :: "string \<Rightarrow> bool" where
  "empty_host after_slashes =
     (let r = dropWhile (\<lambda>c. c = CHR ''/'') after_slashes
      in r = [] \<or> hd r = CHR ''?'' \<or> hd r = CHR ''#'')"

definition plain_path :: "string \<Rightarrow> bool" where
  "plain_path p =
     (list_all (\<lambda>c. c \<in> set ''abcdefghijklmnopqrstuvwxyzABCDEFGHIJKLMNOPQRSTUVWXYZ0123456789-_./'') p
      \<and> \<not> str_includes p ''/.'')"

definition new_URL :: "string \<Rightarrow> string \<Rightarrow> string outcome" where
  "new_URL url base =
     (if \<not> prefix ''https:'' base then Not_modelled
      else if (prefix ''//'' url \<and> empty_host (drop 2 url))
            \<or> (prefix ''https://'' url \<and> empty_host (drop 8 url))
            \<or> (prefix ''http://'' url \<and> empty_host (drop 7 url)) then TypeError
      else if base = Astro_site \<and> prefix ''https://coderik.nl/'' url \<and> plain_path (drop 18 url)
        then Returns url
      else if base = Astro_site \<and> prefix ''/'' url \<and> \<not> prefix ''//'' url \<and> plain_path url
        then Returns (''https://coderik.nl'' @ url)
      else Not_modelled)"

text \<open>The properties of the component and what its frontmatter computes for the tags.\<close>

datatype page_type = website | article

record props =
  props_title :: "string option"
  props_description :: "string option"
  props_image :: "image option"
  props_pageType :: "page_type option"

record head =
  head_title :: string
  head_description :: string
  head_pageType :: page_type
  resolvedImage :: "image option"
  canonical :: string

text \<open>
  \<^verbatim>\<open>image = siteConfig.image\<close> is the default of the destructuring; \<^verbatim>\<open>image?.src\<close> then
  decides whether the constructor is called.
\<close>

definition image_of :: "props \<Rightarrow> image option" where
  "image_of p = (case props_image p of None \<Rightarrow> config_image siteConfig | Some i \<Rightarrow> Some i)"

definition image_src :: "props \<Rightarrow> string" where
  "image_src p = (case image_of p of None \<Rightarrow> [] | Some i \<Rightarrow> src i)"

text \<open>
  The frontmatter of BaseHead, with the constructor of the host as \<open>URL\<close>. A TypeError of
  the constructor is not caught, so it ends the frontmatter. The tags take the canonical
  address as \<^verbatim>\<open>formatCanonicalURL(canonicalURL)\<close>.
\<close>

definition BaseHead ::
  "(string \<Rightarrow> string \<Rightarrow> string outcome) \<Rightarrow> props \<Rightarrow> string \<Rightarrow> head outcome" where
  "BaseHead URL p request_url =
     (let description = (case props_description p of None \<Rightarrow> [] | Some d \<Rightarrow> d);
          pageType = (case props_pageType p of None \<Rightarrow> website | Some t \<Rightarrow> t);
          title = title (props_title p) (config_title siteConfig)
      in case (case image_of p of
                 None \<Rightarrow> Returns None
               | Some i \<Rightarrow>
                   if src i = [] then Returns None
                   else (case URL (src i) Astro_site of
                           Returns u \<Rightarrow> Returns (Some \<lparr>src = u, alt = alt i\<rparr>)
                         | TypeError \<Rightarrow> TypeError
                         | Not_modelled \<Rightarrow> Not_modelled)) of
           TypeError \<Rightarrow> TypeError
         | Not_modelled \<Rightarrow> Not_modelled
         | Returns resolved \<Rightarrow>
             (case URL request_url Astro_site of
                TypeError \<Rightarrow> TypeError
              | Not_modelled \<Rightarrow> Not_modelled
              | Returns canonicalURL \<Rightarrow>
                  Returns \<lparr>head_title = title, head_description = description,
                           head_pageType = pageType, resolvedImage = resolved,
                           canonical = formatCanonicalURL canonicalURL\<rparr>))"


section \<open>The header component\<close>

subsection \<open>The document\<close>

text \<open>
  An element with the parts the script reads and writes: its class list and the inline
  declarations \<^verbatim>\<open>style.transform\<close> and \<^verbatim>\<open>style.display\<close> (the empty string when not
  set). \<^verbatim>\<open>document.querySelector\<close> gives an element or null.
\<close>

record element =
  classList :: "string set"
  style_transform :: string
  style_display :: string

record document =
  el_header :: "element option"
  el_nav_drawer :: "element option"
  el_nav_drawer_mask :: "element option"

definition classList_add :: "string \<Rightarrow> element \<Rightarrow> element" where
  "classList_add c e = e\<lparr>classList := insert c (classList e)\<rparr>"

definition classList_remove :: "string \<Rightarrow> element \<Rightarrow> element" where
  "classList_remove c e = e\<lparr>classList := classList e - {c}\<rparr>"

text \<open>
  The template: the three elements with their static class attributes and no inline style.
  The header has one bound class besides, \<^verbatim>\<open>:class="{ 'header-bg-color': scroll > 20 }"\<close>,
  a function of the offset in \<^verbatim>\<open>scroll\<close>.
\<close>

definition header_static_class :: "string set" where
  "header_static_class =
     {''!sticky'', ''top-0'', ''z-899'', ''max-w-3xl'', ''mx-auto'', ''h-20'', ''px-6'', ''flex'',
      ''justify-between'', ''items-center'', ''relative''}"

definition rendered_document :: document where
  "rendered_document =
     \<lparr>el_header = Some \<lparr>classList = header_static_class,
                          style_transform = '''', style_display = ''''\<rparr>,
      el_nav_drawer = Some \<lparr>classList = {''nav-drawer'', ''sm:hidden''},
                              style_transform = '''', style_display = ''''\<rparr>,
      el_nav_drawer_mask = Some \<lparr>classList = {''nav-drawer-mask''},
                                   style_transform = '''', style_display = ''''\<rparr>\<rparr>"

definition header_class_binding :: "int \<Rightarrow> string set" where
  "header_class_binding scroll_y = (if scroll_y > 20 then {''header-bg-color''} else {})"

text \<open>
  The style sheet of the component: \<^verbatim>\<open>.nav-drawer { transform: translateX(-100%) }\<close> and
  \<^verbatim>\<open>.nav-drawer-mask { display: none }\<close>. An inline declaration, once set, overrides it.
\<close>

definition nav_drawer_transform :: "element \<Rightarrow> string" where
  "nav_drawer_transform e =
     (if style_transform e = [] then ''translateX(-100%)'' else style_transform e)"

definition nav_drawer_mask_display :: "element \<Rightarrow> string" where
  "nav_drawer_mask_display e = (if style_display e = [] then ''none'' else style_display e)"

subsection \<open>The script\<close>

text \<open>
  The state of one header: the reactive offset \<^verbatim>\<open>scroll\<close> of \<^verbatim>\<open>useWindowScroll\<close>, the
  recorded offset \<^verbatim>\<open>oldScroll\<close>, whether \<^verbatim>\<open>onMounted\<close> has added the scroll listener, the
  bound classes of the header as the last render gave them, the document, and the imported
  site configuration (an object shared with every other importer). Offsets are whole pixels,
  as integers.
\<close>

record header_component =
  scroll :: int
  oldScroll :: int
  scroll_listener :: bool
  rendered_binding :: "string set"
  dom :: document
  config :: site_config

text \<open>
  \<^verbatim>\<open>const { y: scroll } = useWindowScroll(); const oldScroll = ref(unref(scroll))\<close>.
  The offset of \<^verbatim>\<open>useWindowScroll\<close> (\<^verbatim>\<open>@vueuse/core\<close> 13) is 0 when the script runs,
  whatever the offset of the window; it takes the offset of the window when the component is
  mounted and at every scroll event. So \<^verbatim>\<open>oldScroll\<close> starts at 0.
\<close>

definition script_setup :: "site_config \<Rightarrow> document \<Rightarrow> header_component" where
  "script_setup cfg d =
     \<lparr>scroll = 0, oldScroll = 0, scroll_listener = False, rendered_binding = {}, dom = d,
      config = cfg\<rparr>"

definition useWindowScroll_mounted :: "int \<Rightarrow> header_component \<Rightarrow> header_component" where
  "useWindowScroll_mounted y st = st\<lparr>scroll := y\<rparr>"

definition update_header :: "(element \<Rightarrow> element) \<Rightarrow> header_component \<Rightarrow> header_component" where
  "update_header f st = st\<lparr>dom := (dom st)\<lparr>el_header := map_option f (el_header (dom st))\<rparr>\<rparr>"

text \<open>
  The callback of \<^verbatim>\<open>siteConfig.socialLinks.filter\<close>: whether the entry is kept, and the entry
  as the callback leaves it (the assignment to \<^verbatim>\<open>link.icon\<close> writes into the entry itself).
  \<^verbatim>\<open>return link\<close> returns an object, which \<^verbatim>\<open>filter\<close> reads as true.
\<close>

definition socialLinks_callback :: "social_link \<Rightarrow> bool \<times> social_link" where
  "socialLinks_callback link =
     (if truthy (header link) \<and> typeof (header link) = ''boolean'' then (True, link)
      else if truthy (header link) \<and> typeof (header link) = ''string'' then
        (True, link\<lparr>icon := (if str_includes (string_value (header link)) ''i-''
                               then header link else icon link)\<rparr>)
      else (False, link))"

text \<open>
  \<^verbatim>\<open>Array.prototype.filter\<close> with a callback that may write to the element it is given:
  the new array of the kept elements, and the array itself after the calls. Both hold the
  same objects, so a kept element shows the callback's write in both.
\<close>

fun array_filter :: "('a \<Rightarrow> bool \<times> 'a) \<Rightarrow> 'a list \<Rightarrow> 'a list \<times> 'a list" where
  "array_filter f [] = ([], [])"
| "array_filter f (x # xs) =
     (let (keep, x') = f x;
          (kept, xs') = array_filter f xs
      in (if keep then x' # kept else kept, x' # xs'))"

definition socialLinks_computed :: "header_component \<Rightarrow> social_link list \<times> header_component" where
  "socialLinks_computed st =
     (let (kept, links') = array_filter socialLinks_callback (socialLinks (config st))
      in (kept, st\<lparr>config := (config st)\<lparr>socialLinks := links'\<rparr>\<rparr>))"

definition navLinks :: "header_component \<Rightarrow> nav_link list" where
  "navLinks st = header_navLinks (config st)"

text \<open>
  Rendering. The class attribute of the header belongs to the template: when the bound class
  differs from the one of the last render, Vue assigns the attribute anew
  (\<^verbatim>\<open>el.className = value\<close>), the static classes and the bound one, and what the script had
  added with \<^verbatim>\<open>classList.add\<close> is gone. The first render also runs the \<^verbatim>\<open>v-for\<close> over
  \<^verbatim>\<open>socialLinks\<close>, which evaluates the filter; the computed list is cached afterwards, as
  nothing it reads is reactive.
\<close>

definition patch_class :: "header_component \<Rightarrow> header_component" where
  "patch_class st =
     (update_header (\<lambda>e. e\<lparr>classList := header_static_class \<union> header_class_binding (scroll st)\<rparr>) st)
       \<lparr>rendered_binding := header_class_binding (scroll st)\<rparr>"

definition first_render :: "header_component \<Rightarrow> header_component" where
  "first_render st = patch_class (snd (socialLinks_computed st))"

definition render :: "header_component \<Rightarrow> header_component" where
  "render st =
     (if header_class_binding (scroll st) = rendered_binding st then st else patch_class st)"

text \<open>
  \<^verbatim>\<open>onMounted\<close>, given \<^verbatim>\<open>document.documentElement.scrollTop\<close>. The touchmove listener on the
  mask only prevents the default action and keeps no state.
\<close>

definition onMounted :: "int \<Rightarrow> header_component \<Rightarrow> header_component" where
  "onMounted scrollTop st =
     (case el_header (dom st) of
        None \<Rightarrow> st
      | Some headerEl \<Rightarrow>
          (let st1 = (if scrollTop > 100
                      then update_header (classList_add ''header-bg-color'') st else st)
           in st1\<lparr>scroll_listener := True\<rparr>))"

text \<open>The listener that \<^verbatim>\<open>onMounted\<close> adds to the window's scroll event.\<close>

definition scroll_handler :: "header_component \<Rightarrow> header_component" where
  "scroll_handler st =
     (if scroll st < 150 then update_header (classList_remove ''header-hide'') st
      else
        (let st1 = (if scroll st - oldScroll st > 150
                    then (update_header (classList_add ''header-hide'') st)
                           \<lparr>oldScroll := scroll st\<rparr>
                    else st);
             st2 = (if oldScroll st1 - scroll st1 > 150
                    then (update_header (classList_remove ''header-hide'') st1)
                           \<lparr>oldScroll := scroll st1\<rparr>
                    else st1)
         in st2))"

text \<open>
  A scroll event at offset \<open>y\<close>, as its two listeners run: the listener of
  \<^verbatim>\<open>useWindowScroll\<close>, added when the script runs, stores the offset; then the listener of
  \<^verbatim>\<open>onMounted\<close> runs, if it was added.
\<close>

definition window_scroll :: "int \<Rightarrow> header_component \<Rightarrow> header_component" where
  "window_scroll y st =
     (let st1 = st\<lparr>scroll := y\<rparr>
      in if scroll_listener st1 then scroll_handler st1 else st1)"

text \<open>
  The same event with the render that the new offset brings about. The render is queued when
  the offset is stored and runs as a microtask when that listener returns, before the listener
  of \<^verbatim>\<open>onMounted\<close>.
\<close>

definition scroll_event :: "int \<Rightarrow> header_component \<Rightarrow> header_component" where
  "scroll_event y st =
     (let st1 = render (st\<lparr>scroll := y\<rparr>)
      in if scroll_listener st1 then scroll_handler st1 else st1)"

definition toggleNavDrawer :: "header_component \<Rightarrow> header_component" where
  "toggleNavDrawer st =
     (case (el_nav_drawer (dom st), el_nav_drawer_mask (dom st)) of
        (Some drawer, Some mask_el) \<Rightarrow>
          if style_transform drawer = ''translateX(0%)''
          then st\<lparr>dom := (dom st)
                 \<lparr>el_nav_drawer := Some (drawer\<lparr>style_transform := ''translateX(-100%)''\<rparr>),
                  el_nav_drawer_mask := Some (mask_el\<lparr>style_display := ''none''\<rparr>)\<rparr>\<rparr>
          else st\<lparr>dom := (dom st)
                 \<lparr>el_nav_drawer := Some (drawer\<lparr>style_transform := ''translateX(0%)''\<rparr>),
                  el_nav_drawer_mask := Some (mask_el\<lparr>style_display := ''block''\<rparr>)\<rparr>\<rparr>
      | _ \<Rightarrow> st)"

subsection \<open>What the page shows\<close>

text \<open>
  The header carries a class when the class is in the class attribute of the element, which
  the script and the renders both write. It is hidden with \<^verbatim>\<open>header-hide\<close> and has the
  solid background with \<^verbatim>\<open>header-bg-color\<close>.
\<close>

definition header_has_class :: "string \<Rightarrow> header_component \<Rightarrow> bool" where
  "header_has_class c st =
     (case el_header (dom st) of None \<Rightarrow> False | Some h \<Rightarrow> c \<in> classList h)"

definition hidden :: "header_component \<Rightarrow> bool" where
  "hidden st = header_has_class ''header-hide'' st"

definition backgroundSolid :: "header_component \<Rightarrow> bool" where
  "backgroundSolid st = header_has_class ''header-bg-color'' st"

text \<open>
  The drawer is open when its transform is the one \<^verbatim>\<open>toggleNavDrawer\<close> tests for. The state
  of the drawer as the page shows it is the pair of the drawer's transform and the mask's
  display, inline declaration or style sheet.
\<close>

definition drawerOpen :: "header_component \<Rightarrow> bool" where
  "drawerOpen st =
     (case el_nav_drawer (dom st) of
        None \<Rightarrow> False
      | Some drawer \<Rightarrow> nav_drawer_transform drawer = ''translateX(0%)'')"

definition drawer_state :: "header_component \<Rightarrow> string option \<times> string option" where
  "drawer_state st =
     (map_option nav_drawer_transform (el_nav_drawer (dom st)),
      map_option nav_drawer_mask_display (el_nav_drawer_mask (dom st)))"

text \<open>
  The states of a header: set up on the rendered template, then any sequence of renders,
  mounting, scroll events, drawer toggles and evaluations of the social link list.
\<close>

inductive reachable :: "header_component \<Rightarrow> bool" where
  reachable_setup: "reachable (script_setup cfg rendered_document)"
| reachable_first_render: "reachable st \<Longrightarrow> reachable (first_render st)"
| reachable_offset: "reachable st \<Longrightarrow> reachable (useWindowScroll_mounted y st)"
| reachable_mounted: "reachable st \<Longrightarrow> reachable (onMounted scrollTop st)"
| reachable_render: "reachable st \<Longrightarrow> reachable (render st)"
| reachable_scroll: "reachable st \<Longrightarrow> reachable (window_scroll y st)"
| reachable_scroll_event: "reachable st \<Longrightarrow> reachable (scroll_event y st)"
| reachable_toggle: "reachable st \<Longrightarrow> reachable (toggleNavDrawer st)"
| reachable_links: "reachable st \<Longrightarrow> reachable (snd (socialLinks_computed st))"

text \<open>
  The header when mounting is over, on a page loaded at offset \<open>y\<close>: the script has run, the
  template has been rendered for the first time (with \<^verbatim>\<open>scroll\<close> at 0), the mounted hook of
  \<^verbatim>\<open>useWindowScroll\<close> has stored the offset, \<^verbatim>\<open>onMounted\<close> has run, and the render that the
  stored offset brings about has followed.
\<close>

definition mounted :: "site_config \<Rightarrow> int \<Rightarrow> header_component" where
  "mounted cfg y =
     render (onMounted y (useWindowScroll_mounted y (first_render (script_setup cfg rendered_document))))"

text \<open>
  A header is settled when it has its element and the last render is up to date: the bound
  class is the one of the current offset, and the class attribute carries
  \<^verbatim>\<open>header-bg-color\<close> exactly when it is bound.
\<close>

definition settled :: "header_component \<Rightarrow> bool" where
  "settled st =
     (el_header (dom st) \<noteq> None
      \<and> rendered_binding st = header_class_binding (scroll st)
      \<and> backgroundSolid st = (''header-bg-color'' \<in> rendered_binding st))"

text \<open>The inline declarations that \<^verbatim>\<open>toggleNavDrawer\<close> reads and writes, when both elements exist.\<close>

definition drawer_styles :: "header_component \<Rightarrow> (string \<times> string) option" where
  "drawer_styles st =
     (case (el_nav_drawer (dom st), el_nav_drawer_mask (dom st)) of
        (Some d, Some m) \<Rightarrow> Some (style_transform d, style_display m)
      | _ \<Rightarrow> None)"

subsection \<open>The social link list as described\<close>

text \<open>
  The description of the list in the header, to compare the filter with: an entry is in the
  list when its \<^verbatim>\<open>header\<close> is the boolean true or a string that is not empty, and its icon
  becomes the \<^verbatim>\<open>header\<close> string when that string contains \<^verbatim>\<open>i-\<close>.
\<close>

definition shown_in_header :: "social_link \<Rightarrow> bool" where
  "shown_in_header link =
     (case header link of JBool b \<Rightarrow> b | JString s \<Rightarrow> s \<noteq> [] | _ \<Rightarrow> False)"

definition header_icon :: "social_link \<Rightarrow> js_value" where
  "header_icon link =
     (case header link of
        JString s \<Rightarrow> if str_includes s ''i-'' then JString s else icon link
      | _ \<Rightarrow> icon link)"


section \<open>Canonical URL formatting\<close>

lemma str_includes_char: "str_includes u [c] = (c \<in> set u)"
  by (induction u) auto

lemma replace_slash_at_end_eq:
  "replace_slash_at_end u r = (if u \<noteq> [] \<and> last u = CHR ''/'' then butlast u else u) @ r"
  by (induction u) auto

lemma suffix_slash_iff: "suffix ''/'' u = (u \<noteq> [] \<and> last u = CHR ''/'')"
proof (cases u rule: rev_cases)
  case Nil
  then show ?thesis by simp
next
  case (snoc ys y)
  then show ?thesis by (auto simp: suffix_def)
qed

lemma formatCanonicalURL_query:
  "str_includes u ''?'' \<Longrightarrow> formatCanonicalURL u = replace_slash_at_end u ''''"
  by (simp add: formatCanonicalURL_def)

lemma formatCanonicalURL_no_query:
  "\<not> str_includes u ''?'' \<Longrightarrow> formatCanonicalURL u = replace_slash_at_end u ''/''"
  by (simp add: formatCanonicalURL_def)

text \<open>
  Claim C1. When the string form of the URL holds a \<^verbatim>\<open>?\<close>, formatCanonicalURL appends
  nothing: the result is the single replacement of line 31 with the empty string (the
  replacement computed on line 30 plays no part), it is a prefix of the input, and an input
  that does not end in a slash comes back unchanged, as
  \<^verbatim>\<open>https://site.test/blog?page=2\<close> does.
\<close>

theorem formatCanonicalURL_query_appends_nothing:
  assumes "str_includes u ''?''"
  shows "formatCanonicalURL u = replace_slash_at_end u ''''
         \<and> prefix (formatCanonicalURL u) u
         \<and> (\<not> suffix ''/'' u \<longrightarrow> formatCanonicalURL u = u)"
proof -
  have eq: "formatCanonicalURL u = replace_slash_at_end u ''''"
    using assms by (rule formatCanonicalURL_query)
  have pre: "prefix (formatCanonicalURL u) u"
    unfolding eq replace_slash_at_end_eq
    by (cases u rule: rev_cases) simp_all
  have same: "formatCanonicalURL u = u" if "\<not> suffix ''/'' u"
    using that unfolding eq replace_slash_at_end_eq suffix_slash_iff by auto
  from eq pre same show ?thesis by blast
qed

theorem formatCanonicalURL_query_appends_nothing_witness:
  "str_includes ''https://site.test/blog?page=2'' ''?''
   \<and> \<not> suffix ''/'' ''https://site.test/blog?page=2''
   \<and> formatCanonicalURL ''https://site.test/blog?page=2'' = ''https://site.test/blog?page=2''"
proof -
  have q: "str_includes ''https://site.test/blog?page=2'' ''?''"
    by (simp add: str_includes_char)
  have s: "\<not> suffix ''/'' ''https://site.test/blog?page=2''"
    by (simp add: suffix_slash_iff)
  from formatCanonicalURL_query_appends_nothing [OF q] q s show ?thesis
    by blast
qed

text \<open>
  Claim C9. When the string holds a \<^verbatim>\<open>?\<close> and ends in a slash, formatCanonicalURL returns
  the input without that one final slash.
\<close>

theorem formatCanonicalURL_query_strips_final_slash:
  assumes "str_includes u ''?''" and "suffix ''/'' u"
  shows "formatCanonicalURL u = butlast u"
  using assms by (simp add: formatCanonicalURL_query replace_slash_at_end_eq suffix_slash_iff)

theorem formatCanonicalURL_query_strips_final_slash_witness:
  "str_includes ''https://site.test/blog?page=2/'' ''?''
   \<and> suffix ''/'' ''https://site.test/blog?page=2/''
   \<and> formatCanonicalURL ''https://site.test/blog?page=2/'' = ''https://site.test/blog?page=2''"
proof -
  have q: "str_includes ''https://site.test/blog?page=2/'' ''?''"
    by (simp add: str_includes_char)
  have s: "suffix ''/'' ''https://site.test/blog?page=2/''"
    by (simp add: suffix_slash_iff)
  from formatCanonicalURL_query_strips_final_slash [OF q s] q s show ?thesis
    by simp
qed

lemma replace_keeps_absent_char:
  assumes "c \<notin> set u" and "c \<notin> set r"
  shows "c \<notin> set (replace_slash_at_end u r)"
  using assms by (induction u) auto

lemma replace_slash_twice:
  "replace_slash_at_end (replace_slash_at_end u ''/'') ''/'' = replace_slash_at_end u ''/''"
  by (induction u) auto

lemma suffix_two_slashes_replace:
  "suffix ''//'' (replace_slash_at_end u ''/'') = suffix ''//'' u"
proof (cases u rule: rev_cases)
  case Nil
  then show ?thesis by (simp add: suffix_def)
next
  case (snoc ys y)
  then show ?thesis
    by (cases ys rule: rev_cases) (auto simp: replace_slash_at_end_eq suffix_def butlast_append)
qed

text \<open>
  Claim C2, as the code has it. When the string holds no \<^verbatim>\<open>?\<close>, formatCanonicalURL is
  idempotent and its result ends in a slash. The pattern removes at most one slash before one
  is appended, so the result ends in two slashes exactly when the input did: it ends in exactly
  one slash for every input that does not end in two.
\<close>

theorem formatCanonicalURL_no_query_idempotent:
  assumes "\<not> str_includes u ''?''"
  shows "formatCanonicalURL (formatCanonicalURL u) = formatCanonicalURL u
         \<and> suffix ''/'' (formatCanonicalURL u)
         \<and> (suffix ''//'' (formatCanonicalURL u) \<longleftrightarrow> suffix ''//'' u)"
proof -
  have eq: "formatCanonicalURL u = replace_slash_at_end u ''/''"
    using assms by (rule formatCanonicalURL_no_query)
  have "CHR ''?'' \<notin> set (replace_slash_at_end u ''/'')"
    using assms by (intro replace_keeps_absent_char) (simp_all add: str_includes_char)
  then have "\<not> str_includes (formatCanonicalURL u) ''?''"
    by (simp add: eq str_includes_char)
  then have "formatCanonicalURL (formatCanonicalURL u) = formatCanonicalURL u"
    by (simp add: formatCanonicalURL_no_query eq replace_slash_twice)
  moreover have "suffix ''/'' (formatCanonicalURL u)"
    by (simp add: eq replace_slash_at_end_eq suffix_def)
  moreover have "suffix ''//'' (formatCanonicalURL u) \<longleftrightarrow> suffix ''//'' u"
    by (simp add: eq suffix_two_slashes_replace)
  ultimately show ?thesis by blast
qed

theorem formatCanonicalURL_no_query_idempotent_witness:
  "\<not> str_includes ''https://site.test/blog'' ''?''
   \<and> formatCanonicalURL ''https://site.test/blog'' = ''https://site.test/blog/''
   \<and> formatCanonicalURL ''https://site.test/blog/'' = ''https://site.test/blog/''
   \<and> \<not> suffix ''//'' (formatCanonicalURL ''https://site.test/blog'')"
proof -
  have q: "\<not> str_includes ''https://site.test/blog'' ''?''"
    by (simp add: str_includes_char)
  have v: "formatCanonicalURL ''https://site.test/blog'' = ''https://site.test/blog/''"
    by (simp add: formatCanonicalURL_def str_includes_char)
  have s: "\<not> suffix ''//'' ''https://site.test/blog''"
    by (simp add: suffix_def)
  from formatCanonicalURL_no_query_idempotent [OF q] q v s show ?thesis
    by simp
qed

text \<open>
  Claim C2 as stated fails where the path ends in two slashes: the string has no \<^verbatim>\<open>?\<close>,
  comes back as it is, and so ends in two slashes, not in exactly one.
\<close>

theorem formatCanonicalURL_two_slashes_counterexample:
  "\<not> str_includes ''https://site.test/blog//'' ''?''
   \<and> formatCanonicalURL ''https://site.test/blog//'' = ''https://site.test/blog//''
   \<and> suffix ''//'' (formatCanonicalURL ''https://site.test/blog//'')"
proof -
  have v: "formatCanonicalURL ''https://site.test/blog//'' = ''https://site.test/blog//''"
    by (simp add: formatCanonicalURL_def str_includes_char)
  have "suffix ''//'' ''https://site.test/blog//''"
    by code_simp
  with v show ?thesis
    by (simp add: str_includes_char)
qed

section \<open>Title composition\<close>

lemma title_absent: "title None site = site" "title (Some []) site = site"
  by (simp_all add: title_def Boolean_str_def toString_opt_def)

lemma title_present:
  "p \<noteq> [] \<Longrightarrow> site \<noteq> [] \<Longrightarrow> title (Some p) site = p @ '' | '' @ site"
  by (simp add: title_def Boolean_str_def toString_opt_def)

lemma prefix_sep_append:
  assumes "p \<noteq> []"
  shows "prefix '' | '' (p @ '' | '' @ rest) \<longleftrightarrow> p = '' |'' \<or> prefix '' | '' p"
proof (cases p)
  case Nil
  with assms show ?thesis by simp
next
  case (Cons a q)
  note p = this
  show ?thesis
  proof (cases q)
    case Nil
    with p show ?thesis by auto
  next
    case (Cons b r)
    with p show ?thesis by (cases r) auto
  qed
qed

lemma suffix_sep_append:
  assumes "site \<noteq> []"
  shows "suffix '' | '' (p @ '' | '' @ site) \<longleftrightarrow> site = ''| '' \<or> suffix '' | '' site"
proof -
  have "suffix '' | '' (p @ '' | '' @ site) \<longleftrightarrow> prefix '' | '' (rev site @ '' | '' @ rev p)"
    by (simp add: suffix_to_prefix)
  also have "\<dots> \<longleftrightarrow> rev site = '' |'' \<or> prefix '' | '' (rev site)"
    using assms by (intro prefix_sep_append) simp
  also have "rev site = '' |'' \<longleftrightarrow> site = ''| ''"
    by (metis rev_rev_ident rev.simps(1,2) append_Nil append_Cons)
  also have "prefix '' | '' (rev site) \<longleftrightarrow> suffix '' | '' site"
    by (simp add: suffix_to_prefix)
  finally show ?thesis .
qed

lemma site_title: "config_title siteConfig = ''Coderik''"
  by (simp add: siteConfig_def)

text \<open>
  Claim C6, as the code has it. For every site title, the title is the site title alone when
  the page title is absent or empty. A page title that is present and not empty gives, with a
  site title that is not empty, the page title, the separator and the site title, and nothing
  is trimmed: the result starts with the separator exactly when the page title is
  \<^verbatim>\<open>" |"\<close> or begins with the separator, and ends with it exactly when the site title is
  \<^verbatim>\<open>"| "\<close> or ends with the separator. With the site title of the configuration the title
  never ends with the separator and starts with it for exactly those page titles.
\<close>

theorem title_separator:
  "(page_title = None \<or> page_title = Some [] \<longrightarrow> title page_title site = site)
   \<and> (p \<noteq> [] \<and> site \<noteq> [] \<longrightarrow>
        title (Some p) site = p @ '' | '' @ site
        \<and> (prefix '' | '' (title (Some p) site) \<longleftrightarrow> p = '' |'' \<or> prefix '' | '' p)
        \<and> (suffix '' | '' (title (Some p) site) \<longleftrightarrow> site = ''| '' \<or> suffix '' | '' site))
   \<and> \<not> suffix '' | '' (title page_title (config_title siteConfig))
   \<and> (prefix '' | '' (title page_title (config_title siteConfig)) \<longleftrightarrow>
        (\<exists>q. page_title = Some q \<and> (q = '' |'' \<or> prefix '' | '' q)))"
proof -
  have fallback: "title page_title site = site"
    if "page_title = None \<or> page_title = Some []" for site
    using that by (auto simp: title_absent)
  have present_eq: "title (Some p) site = p @ '' | '' @ site"
    if "p \<noteq> []" "site \<noteq> []" for p site
    using that by (rule title_present)
  have present_iff:
    "(prefix '' | '' (title (Some p) site) \<longleftrightarrow> p = '' |'' \<or> prefix '' | '' p)
     \<and> (suffix '' | '' (title (Some p) site) \<longleftrightarrow> site = ''| '' \<or> suffix '' | '' site)"
    if "p \<noteq> []" "site \<noteq> []" for p site
    unfolding present_eq [OF that]
    using prefix_sep_append [OF that(1)] suffix_sep_append [OF that(2)] by blast
  have coderik: "\<not> suffix '' | '' ''Coderik''" "\<not> prefix '' | '' ''Coderik''"
    "''Coderik'' \<noteq> ''| ''" "''Coderik'' \<noteq> []"
    by (simp_all add: suffix_to_prefix)
  have site: "\<not> suffix '' | '' (title page_title ''Coderik'')
     \<and> (prefix '' | '' (title page_title ''Coderik'') \<longleftrightarrow>
        (\<exists>q. page_title = Some q \<and> (q = '' |'' \<or> prefix '' | '' q)))"
  proof (cases "page_title = None \<or> page_title = Some []")
    case True
    then have "title page_title ''Coderik'' = ''Coderik''"
      by (rule fallback)
    moreover from True have "\<not> (\<exists>q. page_title = Some q \<and> (q = '' |'' \<or> prefix '' | '' q))"
      by auto
    ultimately show ?thesis
      using coderik(1,2) by simp
  next
    case False
    then obtain q where q: "page_title = Some q" "q \<noteq> []" by auto
    from present_iff [OF q(2) coderik(4)] coderik(1,3) show ?thesis
      unfolding q(1) by blast
  qed
  from fallback present_eq present_iff site show ?thesis
    unfolding site_title by blast
qed

theorem title_separator_witness:
  "title (Some ''Blog'') (config_title siteConfig) = ''Blog | Coderik''
   \<and> \<not> prefix '' | '' (title (Some ''Blog'') (config_title siteConfig))
   \<and> \<not> suffix '' | '' (title (Some ''Blog'') (config_title siteConfig))
   \<and> title None (config_title siteConfig) = ''Coderik''
   \<and> title (Some '''') (config_title siteConfig) = ''Coderik''
   \<and> title None '' | Home'' = '' | Home''
   \<and> \<not> prefix '' | '' (title (Some '' |x'') ''x| '')
   \<and> \<not> suffix '' | '' (title (Some '' |x'') ''x| '')
   \<and> prefix '' | '' (title (Some '' |'') ''Coderik'')
   \<and> suffix '' | '' (title (Some ''Blog'') ''| '')"
proof -
  have a: "title (Some ''Blog'') ''Coderik'' = ''Blog | Coderik''"
    using title_separator [of "Some ''Blog''" "''Coderik''" "''Blog''"] by simp
  have b: "\<not> prefix '' | '' (title (Some ''Blog'') (config_title siteConfig))
           \<and> \<not> suffix '' | '' (title (Some ''Blog'') (config_title siteConfig))"
    using title_separator [of "Some ''Blog''" "''Coderik''" "''Blog''"] by simp
  have c: "title None ''Coderik'' = ''Coderik'' \<and> title (Some '''') ''Coderik'' = ''Coderik''
           \<and> title None '' | Home'' = '' | Home''"
    using title_separator [of None "''Coderik''" "''x''"]
      title_separator [of "Some ''''" "''Coderik''" "''x''"]
      title_separator [of None "'' | Home''" "''x''"] by simp
  have ne: "'' |x'' \<noteq> [] \<and> ''x| '' \<noteq> [] \<and> '' |'' \<noteq> [] \<and> ''Coderik'' \<noteq> []
            \<and> ''Blog'' \<noteq> [] \<and> ''| '' \<noteq> []"
    by simp
  from ne title_separator [of None "''x| ''" "'' |x''"]
  have "(prefix '' | '' (title (Some '' |x'') ''x| '') \<longleftrightarrow>
           '' |x'' = '' |'' \<or> prefix '' | '' '' |x'')
        \<and> (suffix '' | '' (title (Some '' |x'') ''x| '') \<longleftrightarrow>
           ''x| '' = ''| '' \<or> suffix '' | '' ''x| '')"
    by blast
  then have d: "\<not> prefix '' | '' (title (Some '' |x'') ''x| '')
           \<and> \<not> suffix '' | '' (title (Some '' |x'') ''x| '')"
    by (simp add: suffix_to_prefix)
  from ne title_separator [of None "''Coderik''" "'' |''"]
  have e: "prefix '' | '' (title (Some '' |'') ''Coderik'')"
    by blast
  from ne title_separator [of None "''| ''" "''Blog''"]
  have f: "suffix '' | '' (title (Some ''Blog'') ''| '')"
    by blast
  from a b c d e f show ?thesis
    unfolding site_title by simp
qed

text \<open>
  Claim C6 as stated fails for a page title that itself begins with the separator: the title
  begins with it too.
\<close>

theorem title_counterexample:
  "title (Some '' | x'') (config_title siteConfig) = '' | x | Coderik''
   \<and> prefix '' | '' (title (Some '' | x'') (config_title siteConfig))"
  by (simp add: title_def Boolean_str_def toString_opt_def siteConfig_def)


section \<open>Resolution of the metadata\<close>

lemma BaseHead_cases:
  "BaseHead URL p request_url =
     (if image_src p \<noteq> [] \<and> URL (image_src p) Astro_site = TypeError then TypeError
      else if image_src p \<noteq> [] \<and> URL (image_src p) Astro_site = Not_modelled then Not_modelled
      else (case URL request_url Astro_site of
              TypeError \<Rightarrow> TypeError
            | Not_modelled \<Rightarrow> Not_modelled
            | Returns c \<Rightarrow>
                Returns \<lparr>head_title = title (props_title p) (config_title siteConfig),
                         head_description =
                           (case props_description p of None \<Rightarrow> [] | Some d \<Rightarrow> d),
                         head_pageType =
                           (case props_pageType p of None \<Rightarrow> website | Some t \<Rightarrow> t),
                         resolvedImage =
                           (case image_of p of
                              None \<Rightarrow> None
                            | Some i \<Rightarrow>
                                if src i = [] then None
                                else (case URL (src i) Astro_site of
                                        Returns u \<Rightarrow> Some \<lparr>src = u, alt = alt i\<rparr>
                                      | _ \<Rightarrow> None)),
                         canonical = formatCanonicalURL c\<rparr>))"
  by (auto simp: BaseHead_def image_src_def Let_def split: option.splits outcome.splits)

lemma new_URL_site_path:
  "new_URL ''/og.png'' Astro_site = Returns ''https://coderik.nl/og.png''"
  by (simp add: new_URL_def Astro_site_def empty_host_def plain_path_def)

lemma new_URL_site_page:
  "new_URL ''https://coderik.nl/blog'' Astro_site = Returns ''https://coderik.nl/blog''"
  by (simp add: new_URL_def Astro_site_def empty_host_def plain_path_def)

lemma new_URL_no_host: "new_URL ''https://'' Astro_site = TypeError"
  by (simp add: new_URL_def Astro_site_def empty_host_def)

text \<open>
  Claim C8, as the code has it. Whatever the constructor of the host does, the frontmatter
  is a function of the properties, the request address and the configuration, and the title
  and the formatting of the canonical address have no failing step. It does fail, with the
  TypeError of the constructor, exactly when \<^verbatim>\<open>new URL(image.src, Astro.site)\<close> throws for an
  image address that is not empty, or that call is passed or returns and
  \<^verbatim>\<open>new URL(Astro.request.url, Astro.site)\<close> throws. It returns exactly when every call
  made returns, and then with the composed title and the formatted canonical address.
\<close>

theorem BaseHead_fails_with_URL:
  "(BaseHead URL p request_url = TypeError) =
     ((image_src p \<noteq> [] \<and> URL (image_src p) Astro_site = TypeError)
      \<or> ((image_src p = [] \<or> (\<exists>u. URL (image_src p) Astro_site = Returns u))
          \<and> URL request_url Astro_site = TypeError))
   \<and> ((\<exists>h. BaseHead URL p request_url = Returns h) =
        ((image_src p = [] \<or> (\<exists>u. URL (image_src p) Astro_site = Returns u))
         \<and> (\<exists>c. URL request_url Astro_site = Returns c)))
   \<and> (BaseHead URL p request_url = Returns h \<longrightarrow>
        head_title h = title (props_title p) (config_title siteConfig)
        \<and> (\<exists>c. URL request_url Astro_site = Returns c \<and> canonical h = formatCanonicalURL c))"
  unfolding BaseHead_cases
  by (cases "URL (image_src p) Astro_site"; cases "URL request_url Astro_site") auto

theorem BaseHead_fails_with_URL_witness:
  "\<exists>h. BaseHead new_URL
         \<lparr>props_title = Some ''Blog'', props_description = None,
          props_image = Some \<lparr>src = ''/og.png'', alt = None\<rparr>, props_pageType = None\<rparr>
         ''https://coderik.nl/blog'' = Returns h
       \<and> head_title h = ''Blog | Coderik''
       \<and> canonical h = ''https://coderik.nl/blog/''"
proof -
  let ?p = "\<lparr>props_title = Some ''Blog'', props_description = None,
            props_image = Some \<lparr>src = ''/og.png'', alt = None\<rparr>, props_pageType = None\<rparr>"
  have s: "image_src ?p = ''/og.png''"
    by (simp add: image_src_def image_of_def)
  have t: "title (Some ''Blog'') (config_title siteConfig) = ''Blog | Coderik''"
    by (simp add: title_def Boolean_str_def toString_opt_def siteConfig_def)
  have c: "formatCanonicalURL ''https://coderik.nl/blog'' = ''https://coderik.nl/blog/''"
    by (simp add: formatCanonicalURL_def str_includes_char)
  note inst = BaseHead_fails_with_URL [of new_URL ?p "''https://coderik.nl/blog''"]
  from inst have "\<exists>h. BaseHead new_URL ?p ''https://coderik.nl/blog'' = Returns h"
    by (simp add: s new_URL_site_path new_URL_site_page)
  then obtain h where h: "BaseHead new_URL ?p ''https://coderik.nl/blog'' = Returns h" ..
  with inst [of h]
  have "head_title h = ''Blog | Coderik'' \<and> canonical h = ''https://coderik.nl/blog/''"
    by (simp add: t c new_URL_site_page)
  with h show ?thesis by blast
qed

text \<open>
  Claim C8 as stated fails for an image address with an empty host: the constructor throws
  and so does the frontmatter, although the request address is a page of the site.
\<close>

theorem BaseHead_counterexample:
  "BaseHead new_URL
     \<lparr>props_title = Some ''Blog'', props_description = None,
      props_image = Some \<lparr>src = ''https://'', alt = None\<rparr>, props_pageType = None\<rparr>
     ''https://coderik.nl/blog'' = TypeError
   \<and> new_URL ''https://coderik.nl/blog'' Astro_site = Returns ''https://coderik.nl/blog''"
  by (simp add: BaseHead_def image_of_def new_URL_no_host new_URL_site_page)


section \<open>The social link filter\<close>

lemma socialLinks_callback_eq:
  "socialLinks_callback link = (shown_in_header link, link\<lparr>icon := header_icon link\<rparr>)"
  by (cases "header link")
     (simp_all add: socialLinks_callback_def shown_in_header_def header_icon_def)

lemma array_filter_eq:
  "array_filter f xs = (map (snd \<circ> f) (filter (fst \<circ> f) xs), map (snd \<circ> f) xs)"
  by (induction xs) (simp_all add: Let_def split: prod.splits)

lemma array_filter_socialLinks:
  "array_filter socialLinks_callback links =
     (map (\<lambda>l. l\<lparr>icon := header_icon l\<rparr>) (filter shown_in_header links),
      map (\<lambda>l. l\<lparr>icon := header_icon l\<rparr>) links)"
  by (simp add: array_filter_eq socialLinks_callback_eq comp_def)

lemma shown_in_header_iff:
  "shown_in_header link \<longleftrightarrow>
     header link = JBool True \<or> (\<exists>s. header link = JString s \<and> s \<noteq> [])"
  by (cases "header link") (simp_all add: shown_in_header_def)

lemma snd_socialLinks_computed:
  "snd (socialLinks_computed st) =
     st\<lparr>config := (config st)
          \<lparr>socialLinks := map (\<lambda>l. l\<lparr>icon := header_icon l\<rparr>) (socialLinks (config st))\<rparr>\<rparr>"
  by (simp add: socialLinks_computed_def array_filter_socialLinks)

lemma icons_after:
  "map icon (socialLinks (config (snd (socialLinks_computed st))))
     = map header_icon (socialLinks (config st))"
  by (simp add: snd_socialLinks_computed comp_def)

lemma siteConfig_links:
  "map header (socialLinks siteConfig) = [JString ''i-ri-github-line'', Undefined]"
  "map icon (socialLinks siteConfig)
     = [JString ''i-simple-icons-github'', JString ''i-simple-icons-linkedin'']"
  "map link_text (socialLinks siteConfig) = [''GitHub'', ''Linkedin'']"
  by (simp_all add: siteConfig_def)


section \<open>Mounting\<close>

lemma bg_not_static: "''header-bg-color'' \<notin> header_static_class"
  and hide_not_static: "''header-hide'' \<notin> header_static_class"
  by (simp_all add: header_static_class_def)

lemma header_hide_not_bound: "''header-hide'' \<notin> header_class_binding y"
  by (simp add: header_class_binding_def)

lemma bg_bound: "(''header-bg-color'' \<in> header_class_binding y) = (y > 20)"
  by (simp add: header_class_binding_def)

lemma first_render_setup:
  "first_render (script_setup cfg rendered_document) =
     script_setup
       (cfg\<lparr>socialLinks := map (\<lambda>l. l\<lparr>icon := header_icon l\<rparr>) (socialLinks cfg)\<rparr>)
       rendered_document"
  by (simp add: first_render_def snd_socialLinks_computed patch_class_def update_header_def
      script_setup_def rendered_document_def header_class_binding_def)

text \<open>
  The mounted header, written out. The render at the end of mounting gives the class
  attribute of the template for the offset; below or at 20 nothing is bound and the check of
  \<^verbatim>\<open>onMounted\<close> has added nothing.
\<close>

lemma mounted_eq:
  "mounted cfg y =
     \<lparr>scroll = y, oldScroll = 0, scroll_listener = True,
      rendered_binding = header_class_binding y,
      dom = rendered_document
        \<lparr>el_header := Some \<lparr>classList = header_static_class \<union> header_class_binding y,
                             style_transform = '''', style_display = ''''\<rparr>\<rparr>,
      config = cfg\<lparr>socialLinks := map (\<lambda>l. l\<lparr>icon := header_icon l\<rparr>) (socialLinks cfg)\<rparr>\<rparr>"
proof (cases "y > 20")
  case True
  then show ?thesis
    unfolding mounted_def first_render_setup
    by (simp add: useWindowScroll_mounted_def onMounted_def render_def patch_class_def
        update_header_def classList_add_def script_setup_def rendered_document_def
        header_class_binding_def Let_def)
next
  case False
  then show ?thesis
    unfolding mounted_def first_render_setup
    by (simp add: useWindowScroll_mounted_def onMounted_def render_def patch_class_def
        update_header_def classList_add_def script_setup_def rendered_document_def
        header_class_binding_def Let_def)
qed

lemma mounted_listens: "scroll_listener (mounted cfg y)" "el_header (dom (mounted cfg y)) \<noteq> None"
  by (simp_all add: mounted_eq)

lemma scroll_mounted: "scroll (mounted cfg y) = y"
  by (simp add: mounted_eq)

lemma config_mounted:
  "config (mounted cfg y) =
     cfg\<lparr>socialLinks := map (\<lambda>l. l\<lparr>icon := header_icon l\<rparr>) (socialLinks cfg)\<rparr>"
  by (simp add: mounted_eq)

lemma links_mounted_site:
  "socialLinks (config (mounted siteConfig y)) =
      [\<lparr>link_text = ''GitHub'', href = ''https://github.com/erikvdven'',
        icon = JString ''i-ri-github-line'', header = JString ''i-ri-github-line''\<rparr>,
       \<lparr>link_text = ''Linkedin'', href = '''',
        icon = JString ''i-simple-icons-linkedin'', header = Undefined\<rparr>]"
  by (simp add: config_mounted) (simp add: siteConfig_def header_icon_def)


section \<open>The scroll listener\<close>

lemma hidden_eq:
  "hidden st =
     (case el_header (dom st) of None \<Rightarrow> False | Some h \<Rightarrow> ''header-hide'' \<in> classList h)"
  by (simp add: hidden_def header_has_class_def)

lemma scroll_listener_window_scroll: "scroll_listener (window_scroll s st) = scroll_listener st"
  by (simp add: window_scroll_def scroll_handler_def update_header_def Let_def)

lemma el_header_window_scroll:
  "(el_header (dom (window_scroll s st)) = None) = (el_header (dom st) = None)"
  by (simp add: window_scroll_def scroll_handler_def update_header_def Let_def)

lemma mounted_start: "oldScroll (mounted cfg y) = 0" "\<not> hidden (mounted cfg y)"
  by (simp_all add: mounted_eq hidden_eq hide_not_static header_hide_not_bound)

lemma window_scroll_cases:
  assumes "scroll_listener st" and "el_header (dom st) = Some h"
  shows "s < 150 \<Longrightarrow>
           \<not> hidden (window_scroll s st) \<and> oldScroll (window_scroll s st) = oldScroll st"
    and "150 \<le> s \<Longrightarrow> s - oldScroll st > 150 \<Longrightarrow>
           hidden (window_scroll s st) \<and> oldScroll (window_scroll s st) = s"
    and "150 \<le> s \<Longrightarrow> oldScroll st - s > 150 \<Longrightarrow>
           \<not> hidden (window_scroll s st) \<and> oldScroll (window_scroll s st) = s"
    and "150 \<le> s \<Longrightarrow> \<not> s - oldScroll st > 150 \<Longrightarrow> \<not> oldScroll st - s > 150 \<Longrightarrow>
           hidden (window_scroll s st) = hidden st
           \<and> oldScroll (window_scroll s st) = oldScroll st"
  using assms
  by (simp_all add: window_scroll_def scroll_handler_def update_header_def hidden_eq
      classList_add_def classList_remove_def Let_def)

text \<open>
  Claim C3. A scroll event at offset \<open>s\<close> on a mounted header, with \<open>s0\<close> the recorded
  offset: below 150 the header is shown and \<open>s0\<close> stays; from 150 on, a rise of more than 150
  over \<open>s0\<close> hides the header and a fall of more than 150 under \<open>s0\<close> shows it, both
  recording \<open>s\<close>; otherwise nothing changes. From a mount at offset 0, the events 200, 400
  and 100 leave the header hidden, hidden and then shown.
\<close>

theorem window_scroll_step:
  assumes "scroll_listener st" and "el_header (dom st) \<noteq> None"
  shows "(s < 150 \<longrightarrow>
            \<not> hidden (window_scroll s st) \<and> oldScroll (window_scroll s st) = oldScroll st)
       \<and> (150 \<le> s \<and> s - oldScroll st > 150 \<longrightarrow>
            hidden (window_scroll s st) \<and> oldScroll (window_scroll s st) = s)
       \<and> (150 \<le> s \<and> oldScroll st - s > 150 \<longrightarrow>
            \<not> hidden (window_scroll s st) \<and> oldScroll (window_scroll s st) = s)
       \<and> (150 \<le> s \<and> \<not> s - oldScroll st > 150 \<and> \<not> oldScroll st - s > 150 \<longrightarrow>
            hidden (window_scroll s st) = hidden st
            \<and> oldScroll (window_scroll s st) = oldScroll st)
       \<and> oldScroll (mounted cfg 0) = 0
       \<and> hidden (window_scroll 200 (mounted cfg 0))
       \<and> hidden (window_scroll 400 (window_scroll 200 (mounted cfg 0)))
       \<and> \<not> hidden (window_scroll 100 (window_scroll 400 (window_scroll 200 (mounted cfg 0))))"
proof -
  from assms(2) obtain h where h: "el_header (dom st) = Some h" by auto
  note step = window_scroll_cases [OF assms(1) h, of s]
  define m1 where "m1 = window_scroll 200 (mounted cfg 0)"
  define m2 where "m2 = window_scroll 400 m1"
  obtain h0 where h0: "el_header (dom (mounted cfg 0)) = Some h0"
    using mounted_listens(2) [of cfg 0] by auto
  have l1: "scroll_listener m1"
    by (simp add: m1_def scroll_listener_window_scroll mounted_listens)
  have "el_header (dom m1) \<noteq> None"
    by (simp add: m1_def el_header_window_scroll mounted_listens)
  then obtain h1 where h1: "el_header (dom m1) = Some h1" by auto
  have l2: "scroll_listener m2"
    by (simp add: m2_def scroll_listener_window_scroll l1)
  have "el_header (dom m2) \<noteq> None"
    by (simp add: m2_def el_header_window_scroll h1)
  then obtain h2 where h2: "el_header (dom m2) = Some h2" by auto
  have e1: "hidden m1 \<and> oldScroll m1 = 200"
    unfolding m1_def
    by (rule window_scroll_cases(2) [OF mounted_listens(1) h0]) (simp_all add: mounted_start)
  have e2: "hidden m2 \<and> oldScroll m2 = 400"
    unfolding m2_def
    by (rule window_scroll_cases(2) [OF l1 h1]) (simp_all add: e1)
  have e3: "\<not> hidden (window_scroll 100 m2)"
    using window_scroll_cases(1) [OF l2 h2, of 100] by simp
  from step e1 e2 e3 show ?thesis
    unfolding m1_def m2_def by (simp add: mounted_start)
qed

theorem window_scroll_step_witness:
  "scroll_listener (mounted siteConfig 0) \<and> el_header (dom (mounted siteConfig 0)) \<noteq> None
   \<and> oldScroll (mounted siteConfig 0) = 0 \<and> \<not> hidden (mounted siteConfig 0)
   \<and> hidden (window_scroll 200 (mounted siteConfig 0))
   \<and> oldScroll (window_scroll 200 (mounted siteConfig 0)) = 200
   \<and> \<not> hidden (window_scroll 100 (mounted siteConfig 0))
   \<and> oldScroll (window_scroll 100 (mounted siteConfig 0)) = 0
   \<and> hidden (window_scroll 150 (mounted siteConfig 0)) = hidden (mounted siteConfig 0)
   \<and> oldScroll (window_scroll 150 (mounted siteConfig 0)) = 0"
proof -
  note m = mounted_listens [of siteConfig 0]
  from window_scroll_step [OF m, of 200 siteConfig] window_scroll_step [OF m, of 100 siteConfig]
    window_scroll_step [OF m, of 150 siteConfig] m mounted_start [of siteConfig 0]
  show ?thesis by simp
qed


section \<open>The header background\<close>

lemma backgroundSolid_eq:
  "backgroundSolid st =
     (case el_header (dom st) of None \<Rightarrow> False | Some h \<Rightarrow> ''header-bg-color'' \<in> classList h)"
  by (simp add: backgroundSolid_def header_has_class_def)

lemma backgroundSolid_onMounted:
  "el_header (dom st) \<noteq> None \<Longrightarrow>
   backgroundSolid (onMounted y st) = (y > 100 \<or> backgroundSolid st)"
  by (auto simp: backgroundSolid_eq onMounted_def update_header_def classList_add_def Let_def
      split: option.splits)

lemma backgroundSolid_scroll_handler: "backgroundSolid (scroll_handler st) = backgroundSolid st"
  by (auto simp: backgroundSolid_eq scroll_handler_def update_header_def classList_add_def
      classList_remove_def Let_def split: option.splits)

lemma backgroundSolid_window_scroll: "backgroundSolid (window_scroll s st) = backgroundSolid st"
proof -
  have "backgroundSolid (st\<lparr>scroll := s\<rparr>) = backgroundSolid st"
    by (simp add: backgroundSolid_eq)
  then show ?thesis
    by (simp add: window_scroll_def Let_def backgroundSolid_scroll_handler)
qed

lemma backgroundSolid_toggle: "backgroundSolid (toggleNavDrawer st) = backgroundSolid st"
  by (auto simp: backgroundSolid_eq toggleNavDrawer_def split: option.splits)

lemma scroll_handler_frame:
  "scroll (scroll_handler st) = scroll st"
  "rendered_binding (scroll_handler st) = rendered_binding st"
  "config (scroll_handler st) = config st"
  "scroll_listener (scroll_handler st) = scroll_listener st"
  "(el_header (dom (scroll_handler st)) = None) = (el_header (dom st) = None)"
  by (simp_all add: scroll_handler_def update_header_def Let_def)

lemma settled_scroll_handler: "settled st \<Longrightarrow> settled (scroll_handler st)"
  by (simp add: settled_def scroll_handler_frame backgroundSolid_scroll_handler)

lemma settled_render_offset: "el_header (dom st) \<noteq> None \<Longrightarrow> settled st \<Longrightarrow> settled (render (st\<lparr>scroll := s\<rparr>))"
  by (auto simp: settled_def render_def patch_class_def update_header_def backgroundSolid_eq
      bg_not_static split: option.splits)

lemma scroll_render_offset: "scroll (render (st\<lparr>scroll := s\<rparr>)) = s"
  by (simp add: render_def patch_class_def update_header_def)

lemma settled_scroll_event:
  assumes "settled st"
  shows "settled (scroll_event s st)" and "scroll (scroll_event s st) = s"
proof -
  from assms have h: "el_header (dom st) \<noteq> None"
    by (simp add: settled_def)
  from settled_render_offset [OF h assms, of s]
  show "settled (scroll_event s st)"
    by (simp add: scroll_event_def Let_def settled_scroll_handler)
  show "scroll (scroll_event s st) = s"
    by (simp add: scroll_event_def Let_def scroll_handler_frame scroll_render_offset)
qed

lemma settled_mounted: "settled (mounted cfg y)"
  by (simp add: settled_def mounted_eq backgroundSolid_eq bg_not_static)

lemma settled_fold: "settled st \<Longrightarrow> settled (fold scroll_event ss st)"
  by (induction ss arbitrary: st) (simp_all add: settled_scroll_event)

lemma settled_solid: "settled st \<Longrightarrow> backgroundSolid st = (scroll st > 20)"
  by (simp add: settled_def bg_bound)

text \<open>
  Claim C4, as the code has it. The check in \<^verbatim>\<open>onMounted\<close> runs once and adds
  \<^verbatim>\<open>header-bg-color\<close> exactly when the offset at mount exceeds 100; the scroll listener and
  the drawer toggle neither add nor remove the class. The template binds the same class of
  the same attribute to \<^verbatim>\<open>scroll > 20\<close>, and a render in which the bound class has changed
  assigns the attribute anew, without what the script added. So the state follows the
  offsets: when mounting is over the background is solid exactly when the offset at mount
  exceeds 20, and after every scroll event exactly when the offset of that event exceeds 20,
  whatever the offset at mount was.
\<close>

theorem backgroundSolid_mount_and_binding:
  "(el_header (dom st) \<noteq> None \<longrightarrow>
      backgroundSolid (onMounted y st) = (y > 100 \<or> backgroundSolid st))
   \<and> backgroundSolid (scroll_handler st) = backgroundSolid st
   \<and> backgroundSolid (window_scroll s st) = backgroundSolid st
   \<and> backgroundSolid (toggleNavDrawer st) = backgroundSolid st
   \<and> backgroundSolid (mounted cfg y) = (y > 20)
   \<and> backgroundSolid (scroll_event s (fold scroll_event ss (mounted cfg y))) = (s > 20)"
proof -
  have "settled (fold scroll_event ss (mounted cfg y))"
    by (rule settled_fold) (rule settled_mounted)
  then have "backgroundSolid (scroll_event s (fold scroll_event ss (mounted cfg y))) = (s > 20)"
    by (simp add: settled_solid settled_scroll_event)
  moreover have "backgroundSolid (mounted cfg y) = (y > 20)"
    by (simp add: settled_solid settled_mounted scroll_mounted)
  ultimately show ?thesis
    by (simp add: backgroundSolid_onMounted backgroundSolid_scroll_handler
        backgroundSolid_window_scroll backgroundSolid_toggle)
qed

theorem backgroundSolid_mount_and_binding_witness:
  "el_header (dom (first_render (script_setup siteConfig rendered_document))) \<noteq> None
   \<and> \<not> backgroundSolid (first_render (script_setup siteConfig rendered_document))
   \<and> backgroundSolid (onMounted 150 (first_render (script_setup siteConfig rendered_document)))
   \<and> \<not> backgroundSolid (onMounted 0 (first_render (script_setup siteConfig rendered_document)))
   \<and> backgroundSolid (mounted siteConfig 150)
   \<and> \<not> backgroundSolid (mounted siteConfig 0)
   \<and> backgroundSolid (scroll_event 30 (fold scroll_event [400, 10] (mounted siteConfig 150)))
   \<and> \<not> backgroundSolid (scroll_event 20 (fold scroll_event [400] (mounted siteConfig 0)))"
proof -
  let ?r = "first_render (script_setup siteConfig rendered_document)"
  have h: "el_header (dom ?r) \<noteq> None"
    unfolding first_render_setup by (simp add: script_setup_def rendered_document_def)
  have n: "\<not> backgroundSolid ?r"
    unfolding first_render_setup
    by (simp add: script_setup_def rendered_document_def backgroundSolid_eq bg_not_static)
  from backgroundSolid_mount_and_binding [of ?r 150 30 siteConfig "[400, 10]"]
    backgroundSolid_mount_and_binding [of ?r 0 20 siteConfig "[400]"] h n
  show ?thesis by simp
qed

text \<open>
  Claim C4 as stated fails both ways. A page mounted at offset 0 has no solid background and
  has it after a scroll event at offset 200; a page mounted at offset 150 has the solid
  background and has lost it after a scroll event at offset 10.
\<close>

theorem backgroundSolid_counterexample:
  "\<not> backgroundSolid (mounted siteConfig 0)
   \<and> backgroundSolid (scroll_event 200 (mounted siteConfig 0))
   \<and> backgroundSolid (mounted siteConfig 150)
   \<and> \<not> backgroundSolid (scroll_event 10 (mounted siteConfig 150))"
  by (simp add: settled_solid settled_mounted settled_scroll_event scroll_mounted)


section \<open>Scroll events with their render\<close>

lemma scroll_handler_hidden:
  assumes "el_header (dom st) \<noteq> None"
  shows "hidden (scroll_handler st) =
           (if scroll st < 150 then False
            else if scroll st - oldScroll st > 150 then True
            else if oldScroll st - scroll st > 150 then False
            else hidden st)"
    and "oldScroll (scroll_handler st) =
           (if scroll st < 150 then oldScroll st
            else if scroll st - oldScroll st > 150 \<or> oldScroll st - scroll st > 150 then scroll st
            else oldScroll st)"
  using assms
  by (auto simp: scroll_handler_def update_header_def hidden_eq classList_add_def
      classList_remove_def Let_def)

lemma render_offset_frame:
  "oldScroll (render (st\<lparr>scroll := s\<rparr>)) = oldScroll st"
  "scroll_listener (render (st\<lparr>scroll := s\<rparr>)) = scroll_listener st"
  "(el_header (dom (render (st\<lparr>scroll := s\<rparr>))) = None) = (el_header (dom st) = None)"
  by (simp_all add: render_def patch_class_def update_header_def)

lemma render_offset_hidden:
  assumes "settled st" and "hidden st \<longrightarrow> scroll st > 20" and "150 \<le> s"
  shows "hidden (render (st\<lparr>scroll := s\<rparr>)) = hidden st"
  using assms
  by (auto simp: settled_def render_def patch_class_def update_header_def hidden_eq
      header_class_binding_def hide_not_static split: option.splits if_splits)

text \<open>
  On a settled header whose header is hidden only above offset 20, as after mounting and
  after every scroll event, the render within a scroll event changes nothing of what the
  scroll listener leaves: hidden or shown, and the recorded offset.
\<close>

lemma scroll_event_as_window_scroll:
  assumes "settled st" and "scroll_listener st" and "hidden st \<longrightarrow> scroll st > 20"
  shows "hidden (scroll_event s st) = hidden (window_scroll s st)"
    and "oldScroll (scroll_event s st) = oldScroll (window_scroll s st)"
proof -
  from assms(1) have h: "el_header (dom st) \<noteq> None"
    by (simp add: settled_def)
  let ?r = "render (st\<lparr>scroll := s\<rparr>)"
  let ?w = "st\<lparr>scroll := s\<rparr>"
  have hr: "el_header (dom ?r) \<noteq> None" and hw: "el_header (dom ?w) \<noteq> None"
    using h by (simp_all add: render_offset_frame)
  have same: "150 \<le> s \<Longrightarrow> hidden ?r = hidden ?w"
    using render_offset_hidden [OF assms(1,3)] by (simp add: hidden_eq)
  show "hidden (scroll_event s st) = hidden (window_scroll s st)"
    using assms(2) same
    by (simp add: scroll_event_def window_scroll_def Let_def render_offset_frame
        scroll_handler_hidden [OF hr] scroll_handler_hidden [OF hw] scroll_render_offset)
  show "oldScroll (scroll_event s st) = oldScroll (window_scroll s st)"
    using assms(2)
    by (simp add: scroll_event_def window_scroll_def Let_def render_offset_frame
        scroll_handler_hidden [OF hr] scroll_handler_hidden [OF hw] scroll_render_offset)
qed


section \<open>The navigation drawer\<close>

lemma drawer_frame_update_header:
  "el_nav_drawer (dom (update_header f st)) = el_nav_drawer (dom st)"
  "el_nav_drawer_mask (dom (update_header f st)) = el_nav_drawer_mask (dom st)"
  by (simp_all add: update_header_def)

lemma drawer_frame_onMounted:
  "el_nav_drawer (dom (onMounted y st)) = el_nav_drawer (dom st)"
  "el_nav_drawer_mask (dom (onMounted y st)) = el_nav_drawer_mask (dom st)"
  by (simp_all add: onMounted_def drawer_frame_update_header split: option.splits)

lemma drawer_frame_scroll_handler:
  "el_nav_drawer (dom (scroll_handler st)) = el_nav_drawer (dom st)"
  "el_nav_drawer_mask (dom (scroll_handler st)) = el_nav_drawer_mask (dom st)"
  by (simp_all add: scroll_handler_def drawer_frame_update_header Let_def)

lemma drawer_frame_window_scroll:
  "el_nav_drawer (dom (window_scroll y st)) = el_nav_drawer (dom st)"
  "el_nav_drawer_mask (dom (window_scroll y st)) = el_nav_drawer_mask (dom st)"
  by (simp_all add: window_scroll_def drawer_frame_scroll_handler Let_def)

lemma drawer_frame_patch_class:
  "el_nav_drawer (dom (patch_class st)) = el_nav_drawer (dom st)"
  "el_nav_drawer_mask (dom (patch_class st)) = el_nav_drawer_mask (dom st)"
  by (simp_all add: patch_class_def drawer_frame_update_header)

lemma drawer_frame_render:
  "el_nav_drawer (dom (render st)) = el_nav_drawer (dom st)"
  "el_nav_drawer_mask (dom (render st)) = el_nav_drawer_mask (dom st)"
  by (simp_all add: render_def drawer_frame_patch_class)

lemma drawer_frame_scroll_event:
  "el_nav_drawer (dom (scroll_event y st)) = el_nav_drawer (dom st)"
  "el_nav_drawer_mask (dom (scroll_event y st)) = el_nav_drawer_mask (dom st)"
  by (simp_all add: scroll_event_def drawer_frame_scroll_handler drawer_frame_render Let_def)

lemma dom_socialLinks_computed: "dom (snd (socialLinks_computed st)) = dom st"
  by (simp add: snd_socialLinks_computed)

lemma drawer_frame_first_render:
  "el_nav_drawer (dom (first_render st)) = el_nav_drawer (dom st)"
  "el_nav_drawer_mask (dom (first_render st)) = el_nav_drawer_mask (dom st)"
  by (simp_all add: first_render_def drawer_frame_patch_class dom_socialLinks_computed)

lemma drawer_styles_frame:
  "drawer_styles (onMounted y st) = drawer_styles st"
  "drawer_styles (window_scroll y st) = drawer_styles st"
  "drawer_styles (scroll_event y st) = drawer_styles st"
  "drawer_styles (render st) = drawer_styles st"
  "drawer_styles (first_render st) = drawer_styles st"
  "drawer_styles (useWindowScroll_mounted y st) = drawer_styles st"
  "drawer_styles (snd (socialLinks_computed st)) = drawer_styles st"
  by (simp_all add: drawer_styles_def drawer_frame_onMounted drawer_frame_window_scroll
      drawer_frame_scroll_event drawer_frame_render drawer_frame_first_render
      useWindowScroll_mounted_def dom_socialLinks_computed)

lemma drawer_styles_toggle:
  "drawer_styles st = Some (t, d) \<Longrightarrow>
   drawer_styles (toggleNavDrawer st) =
     (if t = ''translateX(0%)'' then Some (''translateX(-100%)'', ''none'')
      else Some (''translateX(0%)'', ''block''))"
  by (auto simp: drawer_styles_def toggleNavDrawer_def split: option.splits)

lemma drawer_styles_setup: "drawer_styles (script_setup cfg rendered_document) = Some ('''', '''')"
  by (simp add: drawer_styles_def script_setup_def rendered_document_def)

text \<open>
  The inline declarations of a header take three forms: none set (after rendering), those
  of the closed drawer and those of the open drawer.
\<close>

lemma reachable_drawer_styles:
  assumes "reachable st"
  shows "drawer_styles st \<in> {Some ('''', ''''), Some (''translateX(-100%)'', ''none''),
                              Some (''translateX(0%)'', ''block'')}"
  using assms
proof (induction rule: reachable.induct)
  case (reachable_setup cfg)
  show ?case by (simp add: drawer_styles_setup)
next
  case (reachable_toggle st)
  then show ?case by (auto simp: drawer_styles_toggle)
qed (simp_all add: drawer_styles_frame)

lemma drawer_state_styles:
  "drawer_styles st = Some (t, d) \<Longrightarrow>
   drawer_state st =
     (Some (if t = [] then ''translateX(-100%)'' else t), Some (if d = [] then ''none'' else d))"
  by (auto simp: drawer_styles_def drawer_state_def nav_drawer_transform_def
      nav_drawer_mask_display_def split: option.splits)

lemma drawerOpen_styles:
  "drawer_styles st = Some (t, d) \<Longrightarrow> drawerOpen st = (t = ''translateX(0%)'')"
  by (auto simp: drawer_styles_def drawerOpen_def nav_drawer_transform_def split: option.splits)

lemma toggle_twice_same:
  assumes "drawer_styles st = Some (''translateX(-100%)'', ''none'')
           \<or> drawer_styles st = Some (''translateX(0%)'', ''block'')"
  shows "toggleNavDrawer (toggleNavDrawer st) = st"
  using assms
  by (auto simp: drawer_styles_def toggleNavDrawer_def split: option.splits)

lemma reachable_mounted_state: "reachable (mounted cfg y)"
  unfolding mounted_def
  by (intro reachable_render reachable_mounted reachable_offset reachable_first_render
      reachable_setup)

text \<open>
  Claim C7. In every state of a header, two toggles in a row give back the state of the
  drawer and of its mask as the page shows them (transform of the drawer, display of the
  mask), and each toggle flips open and closed. Once a toggle has set the inline
  declarations, two toggles give back the very same state; from the rendered state, where
  none is set, they end with the declarations of the closed drawer, which are the values of
  the style sheet.
\<close>

theorem toggleNavDrawer_involution:
  assumes "reachable st"
  shows "drawer_state (toggleNavDrawer (toggleNavDrawer st)) = drawer_state st
       \<and> drawerOpen (toggleNavDrawer st) = (\<not> drawerOpen st)
       \<and> drawerOpen (toggleNavDrawer (toggleNavDrawer st)) = drawerOpen st
       \<and> (drawer_styles st \<noteq> Some ('''', '''') \<longrightarrow> toggleNavDrawer (toggleNavDrawer st) = st)"
proof -
  from reachable_drawer_styles [OF assms]
  consider (initial) "drawer_styles st = Some ('''', '''')"
    | (closed) "drawer_styles st = Some (''translateX(-100%)'', ''none'')"
    | (opened) "drawer_styles st = Some (''translateX(0%)'', ''block'')"
    by auto
  then show ?thesis
  proof cases
    case initial
    then have 1: "drawer_styles (toggleNavDrawer st) = Some (''translateX(0%)'', ''block'')"
      by (simp add: drawer_styles_toggle)
    then have 2: "drawer_styles (toggleNavDrawer (toggleNavDrawer st))
                  = Some (''translateX(-100%)'', ''none'')"
      by (simp add: drawer_styles_toggle)
    from initial 1 2 show ?thesis
      by (simp add: drawer_state_styles drawerOpen_styles)
  next
    case closed
    then have 1: "drawer_styles (toggleNavDrawer st) = Some (''translateX(0%)'', ''block'')"
      by (simp add: drawer_styles_toggle)
    from closed have "toggleNavDrawer (toggleNavDrawer st) = st"
      by (simp add: toggle_twice_same)
    with closed 1 show ?thesis
      by (simp add: drawerOpen_styles)
  next
    case opened
    then have 1: "drawer_styles (toggleNavDrawer st) = Some (''translateX(-100%)'', ''none'')"
      by (simp add: drawer_styles_toggle)
    from opened have "toggleNavDrawer (toggleNavDrawer st) = st"
      by (simp add: toggle_twice_same)
    with opened 1 show ?thesis
      by (simp add: drawerOpen_styles)
  qed
qed

theorem toggleNavDrawer_involution_witness:
  "reachable (mounted siteConfig 0)
   \<and> drawer_styles (mounted siteConfig 0) = Some ('''', '''')
   \<and> \<not> drawerOpen (mounted siteConfig 0)
   \<and> drawerOpen (toggleNavDrawer (mounted siteConfig 0))
   \<and> \<not> drawerOpen (toggleNavDrawer (toggleNavDrawer (mounted siteConfig 0)))
   \<and> drawer_state (mounted siteConfig 0) = (Some ''translateX(-100%)'', Some ''none'')
   \<and> drawer_state (toggleNavDrawer (toggleNavDrawer (mounted siteConfig 0)))
       = (Some ''translateX(-100%)'', Some ''none'')
   \<and> reachable (toggleNavDrawer (mounted siteConfig 0))
   \<and> drawer_styles (toggleNavDrawer (mounted siteConfig 0)) \<noteq> Some ('''', '''')
   \<and> toggleNavDrawer (toggleNavDrawer (toggleNavDrawer (mounted siteConfig 0)))
       = toggleNavDrawer (mounted siteConfig 0)"
proof -
  have r: "reachable (mounted siteConfig 0)"
    by (rule reachable_mounted_state)
  then have r': "reachable (toggleNavDrawer (mounted siteConfig 0))"
    by (rule reachable_toggle)
  have s0: "drawer_styles (mounted siteConfig 0) = Some ('''', '''')"
    by (simp add: mounted_def drawer_styles_frame drawer_styles_setup)
  then have s1: "drawer_styles (toggleNavDrawer (mounted siteConfig 0))
                 = Some (''translateX(0%)'', ''block'')"
    by (simp add: drawer_styles_toggle)
  have o0: "\<not> drawerOpen (mounted siteConfig 0)"
    using s0 by (simp add: drawerOpen_styles)
  have d0: "drawer_state (mounted siteConfig 0) = (Some ''translateX(-100%)'', Some ''none'')"
    using s0 by (simp add: drawer_state_styles)
  from toggleNavDrawer_involution [OF r] toggleNavDrawer_involution [OF r'] r r' s0 s1 o0 d0
  show ?thesis by simp
qed


section \<open>The social links in the header\<close>

text \<open>
  Claim C10. The list of social links in the header holds, in order, the entries whose
  \<^verbatim>\<open>header\<close> is the boolean true or a string that is not empty, which among booleans,
  strings and a missing field are the true values; an entry with no \<^verbatim>\<open>header\<close>, with false
  or with the empty string is left out. Computing the list writes the \<^verbatim>\<open>header\<close> string into
  the \<^verbatim>\<open>icon\<close> of an entry when that string contains \<^verbatim>\<open>i-\<close>, in the list and in the
  configuration alike.
\<close>

theorem socialLinks_computed_filter:
  "fst (socialLinks_computed st) =
     map (\<lambda>l. l\<lparr>icon := header_icon l\<rparr>) (filter shown_in_header (socialLinks (config st)))
   \<and> socialLinks (config (snd (socialLinks_computed st))) =
        map (\<lambda>l. l\<lparr>icon := header_icon l\<rparr>) (socialLinks (config st))
   \<and> (shown_in_header link \<longleftrightarrow>
        header link = JBool True \<or> (\<exists>s. header link = JString s \<and> s \<noteq> []))
   \<and> (typeof (header link) \<in> {''boolean'', ''string'', ''undefined''} \<longrightarrow>
        shown_in_header link = truthy (header link))
   \<and> (header link = Undefined \<or> header link = JBool False \<or> header link = JString []
        \<longrightarrow> \<not> shown_in_header link)
   \<and> (header link = JString s \<and> str_includes s ''i-'' \<longrightarrow> header_icon link = JString s)"
proof -
  have "shown_in_header link = truthy (header link)"
    if "typeof (header link) \<in> {''boolean'', ''string'', ''undefined''}"
    using that by (cases "header link") (simp_all add: shown_in_header_def)
  then show ?thesis
    by (auto simp: socialLinks_computed_def array_filter_socialLinks shown_in_header_iff
        header_icon_def)
qed

theorem socialLinks_computed_filter_witness:
  "map link_text (fst (socialLinks_computed (mounted siteConfig 0))) = [''GitHub'']
   \<and> map icon (fst (socialLinks_computed (mounted siteConfig 0))) = [JString ''i-ri-github-line'']
   \<and> map link_text (socialLinks (config (snd (socialLinks_computed (mounted siteConfig 0)))))
       = [''GitHub'', ''Linkedin'']
   \<and> map icon (socialLinks (config (snd (socialLinks_computed (mounted siteConfig 0)))))
       = [JString ''i-ri-github-line'', JString ''i-simple-icons-linkedin'']
   \<and> shown_in_header (hd (socialLinks siteConfig))
   \<and> \<not> shown_in_header (hd (tl (socialLinks siteConfig)))"
proof -
  have l: "socialLinks siteConfig =
      [\<lparr>link_text = ''GitHub'', href = ''https://github.com/erikvdven'',
        icon = JString ''i-simple-icons-github'', header = JString ''i-ri-github-line''\<rparr>,
       \<lparr>link_text = ''Linkedin'', href = '''',
        icon = JString ''i-simple-icons-linkedin'', header = Undefined\<rparr>]"
    by (simp add: siteConfig_def)
  from socialLinks_computed_filter
         [of "mounted siteConfig 0" "hd (socialLinks siteConfig)" "''i-ri-github-line''"]
       socialLinks_computed_filter
         [of "mounted siteConfig 0" "hd (tl (socialLinks siteConfig))" "''''"]
  show ?thesis
    by (simp add: links_mounted_site l header_icon_def shown_in_header_def)
qed

lemma config_frame:
  "config (onMounted y st) = config st"
  "config (scroll_handler st) = config st"
  "config (window_scroll s st) = config st"
  "config (patch_class st) = config st"
  "config (render st) = config st"
  "config (scroll_event s st) = config st"
  "config (toggleNavDrawer st) = config st"
  "config (useWindowScroll_mounted y st) = config st"
  by (simp_all add: onMounted_def window_scroll_def scroll_event_def scroll_handler_def
      render_def patch_class_def toggleNavDrawer_def useWindowScroll_mounted_def
      update_header_def Let_def split: option.splits)

text \<open>
  Claim C5, as the code has it. The callback of \<^verbatim>\<open>onMounted\<close>, scroll events, later
  renders and the drawer toggle leave the configuration as it is, and nothing changes the
  site title, a navigation link or, of a social link, the text, the address or the
  \<^verbatim>\<open>header\<close>. The icons are written, though: the first render of the header, before
  \<^verbatim>\<open>onMounted\<close>, evaluates the social link list, and that evaluation makes the icon of an
  entry its \<^verbatim>\<open>header\<close> string when that string contains \<^verbatim>\<open>i-\<close> (other icons stay). A
  mounted header has therefore changed the configuration in this way.
\<close>

theorem socialLinks_config_frame:
  "config (onMounted y st) = config st
   \<and> config (window_scroll s st) = config st
   \<and> config (scroll_event s st) = config st
   \<and> config (render st) = config st
   \<and> config (toggleNavDrawer st) = config st
   \<and> config (first_render st) = config (snd (socialLinks_computed st))
   \<and> navLinks (snd (socialLinks_computed st)) = navLinks st
   \<and> config_title (config (snd (socialLinks_computed st))) = config_title (config st)
   \<and> map link_text (socialLinks (config (snd (socialLinks_computed st))))
       = map link_text (socialLinks (config st))
   \<and> map href (socialLinks (config (snd (socialLinks_computed st))))
       = map href (socialLinks (config st))
   \<and> map header (socialLinks (config (snd (socialLinks_computed st))))
       = map header (socialLinks (config st))
   \<and> map icon (socialLinks (config (snd (socialLinks_computed st))))
       = map header_icon (socialLinks (config st))
   \<and> header_icon link =
       (if \<exists>h. header link = JString h \<and> str_includes h ''i-'' then header link else icon link)
   \<and> config (mounted cfg y) =
       cfg\<lparr>socialLinks := map (\<lambda>l. l\<lparr>icon := header_icon l\<rparr>) (socialLinks cfg)\<rparr>"
proof -
  have "header_icon link =
       (if \<exists>h. header link = JString h \<and> str_includes h ''i-'' then header link else icon link)"
    by (cases "header link") (simp_all add: header_icon_def)
  moreover have "config (first_render st) = config (snd (socialLinks_computed st))"
    by (simp add: first_render_def config_frame)
  ultimately show ?thesis
    by (simp add: config_frame config_mounted snd_socialLinks_computed navLinks_def comp_def)
qed

theorem socialLinks_config_frame_witness:
  "navLinks (mounted siteConfig 0) = header_navLinks siteConfig
   \<and> map link_text (socialLinks (config (mounted siteConfig 0))) = [''GitHub'', ''Linkedin'']
   \<and> map header (socialLinks (config (mounted siteConfig 0)))
       = [JString ''i-ri-github-line'', Undefined]
   \<and> map icon (socialLinks (config (mounted siteConfig 0)))
       = [JString ''i-ri-github-line'', JString ''i-simple-icons-linkedin'']
   \<and> config (toggleNavDrawer (scroll_event 200 (mounted siteConfig 0)))
       = config (mounted siteConfig 0)"
proof -
  let ?m = "mounted siteConfig 0"
  let ?l = "hd (socialLinks siteConfig)"
  from socialLinks_config_frame [of 0 ?m 200 ?l siteConfig]
  have m: "config ?m =
      siteConfig\<lparr>socialLinks := map (\<lambda>l. l\<lparr>icon := header_icon l\<rparr>) (socialLinks siteConfig)\<rparr>"
    and e: "config (scroll_event 200 ?m) = config ?m"
    by blast+
  from socialLinks_config_frame [of 0 "scroll_event 200 ?m" 200 ?l siteConfig]
  have t: "config (toggleNavDrawer (scroll_event 200 ?m)) = config (scroll_event 200 ?m)"
    by blast
  have "navLinks ?m = header_navLinks siteConfig"
    by (simp add: navLinks_def m)
  moreover have "socialLinks (config ?m) =
      [\<lparr>link_text = ''GitHub'', href = ''https://github.com/erikvdven'',
        icon = JString ''i-ri-github-line'', header = JString ''i-ri-github-line''\<rparr>,
       \<lparr>link_text = ''Linkedin'', href = '''',
        icon = JString ''i-simple-icons-linkedin'', header = Undefined\<rparr>]"
    unfolding m by (simp add: siteConfig_def header_icon_def)
  ultimately show ?thesis
    using e t by simp
qed

text \<open>
  Claim C5 as stated fails on the configuration of the site: the header, once mounted, has
  changed the icon of the GitHub entry.
\<close>

theorem socialLinks_config_counterexample:
  "map icon (socialLinks siteConfig)
     = [JString ''i-simple-icons-github'', JString ''i-simple-icons-linkedin'']
   \<and> map icon (socialLinks (config (mounted siteConfig 0)))
       = [JString ''i-ri-github-line'', JString ''i-simple-icons-linkedin'']
   \<and> config (mounted siteConfig 0) \<noteq> siteConfig"
proof -
  have a: "map icon (socialLinks siteConfig)
     = [JString ''i-simple-icons-github'', JString ''i-simple-icons-linkedin'']"
    by (rule siteConfig_links(2))
  have b: "map icon (socialLinks (config (mounted siteConfig 0)))
       = [JString ''i-ri-github-line'', JString ''i-simple-icons-linkedin'']"
    by (simp add: links_mounted_site)
  from a b have "config (mounted siteConfig 0) \<noteq> siteConfig"
    by auto
  with a b show ?thesis by simp
qed


end
